theory Spec2Isabelle
  imports Main "HOL-Library.Word"
begin

section \<open>Python values and exceptions\<close>

text \<open>
  The notebook \<^verbatim>\<open>embeddings/Titan-V2-Embeddings.ipynb\<close> is dynamically typed glue around
  \<^verbatim>\<open>json\<close>, \<^verbatim>\<open>boto3\<close> and \<^verbatim>\<open>numpy\<close>. The values that flow through it are the JSON-shaped
  Python values: \<^verbatim>\<open>None\<close>, booleans, unbounded integers, floats, strings, lists and
  dictionaries. A float is carried as the bit pattern of its IEEE-754 binary64; the notebook
  never computes with one. A string is the list of its code points (code points below 256).
  A dictionary is the list of its items in iteration order; its keys are strings, as the
  corpus type \<^verbatim>\<open>dict[str, str]\<close> of \<^verbatim>\<open>encode_corpus\<close> and the objects built by
  \<^verbatim>\<open>json.loads\<close> have them. What a cell prints is not part of the model.
\<close>

datatype pyval =
    PNone
  | PBool bool
  | PInt int
  | PFloat "64 word"
  | PStr string
  | PList "pyval list"
  | PDict "(string \<times> pyval) list"

text \<open>
  Exceptions are values. \<open>AttributeError\<close>, \<open>TypeError\<close> and \<open>KeyError\<close> are raised by the
  interpreter on the notebook's own expressions; \<open>JSONDecodeError\<close>, \<open>ValueError\<close>,
  \<open>RecursionError\<close> and \<open>SdkError\<close> (a botocore exception, with its name) come out of the
  libraries.
\<close>

datatype exn =
    AttributeError
  | TypeError
  | KeyError
  | ValueError
  | RecursionError
  | JSONDecodeError
  | SdkError string

text \<open>\<^verbatim>\<open>not x\<close> is \<open>\<not> truthy x\<close>: the falsy values are \<^verbatim>\<open>None\<close>, \<^verbatim>\<open>False\<close>, zero (both
  float zeros) and the empty string, list and dict.\<close>

fun truthy :: "pyval \<Rightarrow> bool" where
  "truthy PNone = False"
| "truthy (PBool b) = b"
| "truthy (PInt i) = (i \<noteq> 0)"
| "truthy (PFloat w) = (push_bit 1 w \<noteq> 0)"
| "truthy (PStr s) = (s \<noteq> [])"
| "truthy (PList xs) = (xs \<noteq> [])"
| "truthy (PDict kvs) = (kvs \<noteq> [])"

text \<open>Truthiness of an \<^verbatim>\<open>Optional[str]\<close> argument.\<close>

fun opt_truthy :: "string option \<Rightarrow> bool" where
  "opt_truthy None = False"
| "opt_truthy (Some s) = (s \<noteq> [])"

text \<open>\<^verbatim>\<open>str(x)\<close> of an \<^verbatim>\<open>Optional[str]\<close> argument.\<close>

fun str_opt :: "string option \<Rightarrow> string" where
  "str_opt None = ''None''"
| "str_opt (Some s) = s"

fun isinstance_dict :: "pyval \<Rightarrow> bool" where
  "isinstance_dict (PDict kvs) = True"
| "isinstance_dict v = False"

subsection \<open>String methods\<close>

text \<open>\<^verbatim>\<open>str.isspace\<close> on one code point below 256: the characters \<^verbatim>\<open>str.strip()\<close> removes.\<close>

definition py_isspace :: "char \<Rightarrow> bool" where
  "py_isspace c =
     (let n = (of_char c :: nat)
      in (9 \<le> n \<and> n \<le> 13) \<or> (28 \<le> n \<and> n \<le> 32) \<or> n = 133 \<or> n = 160)"

definition py_strip :: "string \<Rightarrow> string" where
  "py_strip s = rev (dropWhile py_isspace (rev (dropWhile py_isspace s)))"

definition py_lower_char :: "char \<Rightarrow> char" where
  "py_lower_char c =
     (let n = (of_char c :: nat)
      in if (65 \<le> n \<and> n \<le> 90) \<or> (192 \<le> n \<and> n \<le> 214) \<or> (216 \<le> n \<and> n \<le> 222)
         then char_of (n + 32) else c)"

definition py_lower :: "string \<Rightarrow> string" where
  "py_lower s = map py_lower_char s"

text \<open>\<^verbatim>\<open>needle in s\<close> on strings: \<open>needle\<close> occurs in \<open>s\<close> as a contiguous run.\<close>

fun py_in :: "string \<Rightarrow> string \<Rightarrow> bool" where
  "py_in needle [] = (needle = [])"
| "py_in needle (c # cs) = (take (length needle) (c # cs) = needle \<or> py_in needle cs)"

text \<open>\<^verbatim>\<open>sep.join(parts)\<close>.\<close>

fun py_join :: "string \<Rightarrow> string list \<Rightarrow> string" where
  "py_join sep [] = []"
| "py_join sep [x] = x"
| "py_join sep (x # y # ys) = x @ sep @ py_join sep (y # ys)"

text \<open>\<^verbatim>\<open>obj[key]\<close> with a string key: a dict looks the key up and raises \<open>KeyError\<close> when it is
  absent; every other value raises \<open>TypeError\<close>.\<close>

fun py_getitem :: "pyval \<Rightarrow> string \<Rightarrow> exn + pyval" where
  "py_getitem (PDict kvs) k = (case map_of kvs k of None \<Rightarrow> Inl KeyError | Some v \<Rightarrow> Inr v)"
| "py_getitem v k = Inl TypeError"

text \<open>\<^verbatim>\<open>obj.get(key)\<close>: a dict answers \<^verbatim>\<open>None\<close> for an absent key; no other value has the
  method.\<close>

fun py_get :: "pyval \<Rightarrow> string \<Rightarrow> exn + pyval" where
  "py_get (PDict kvs) k = (case map_of kvs k of None \<Rightarrow> Inr PNone | Some v \<Rightarrow> Inr v)"
| "py_get v k = Inl AttributeError"

section \<open>The SDK client and the libraries\<close>

record retries =
  max_attempts :: nat
  mode :: string

text \<open>\<^verbatim>\<open>botocore.config.Config(region_name=..., retries={...})\<close>.\<close>

record botocore_Config =
  cfg_region_name :: "string option"
  cfg_retries :: retries

record sts_credentials =
  AccessKeyId :: string
  SecretAccessKey :: string
  SessionToken :: string

text \<open>A client is what \<^verbatim>\<open>session.client(...)\<close> was given: the session's keyword arguments,
  the service, and the client's keyword arguments.\<close>

record boto_client =
  session_region_name :: "string option"
  session_profile_name :: "string option"
  service_name :: string
  client_config :: "botocore_Config option"
  endpoint_url :: "string option"
  client_region_name :: "string option"
  client_credentials :: "sts_credentials option"

text \<open>The keyword arguments of one \<^verbatim>\<open>client.invoke_model(...)\<close>.\<close>

record invoke_args =
  arg_body :: string
  arg_modelId :: string
  arg_accept :: string
  arg_contentType :: string

text \<open>
  What the notebook calls and does not define is a parameter of the model:
  \<^item> \<open>json_dumps\<close>, \<open>json_loads\<close>: the \<^verbatim>\<open>json\<close> module. Each returns or raises:
    \<^verbatim>\<open>json.dumps\<close> raises \<open>ValueError\<close> on an integer beyond the interpreter's limit of 4300
    digits and \<open>RecursionError\<close> on a value nested too deep.
  \<^item> \<open>builtin_str\<close>: \<^verbatim>\<open>str(v)\<close> for a value that is not a string.
  \<^item> \<open>np_array\<close>: \<^verbatim>\<open>numpy.array\<close>.
  \<^item> \<open>environ_get\<close>: \<^verbatim>\<open>os.environ.get\<close>.
  \<^item> \<open>sts_assume_role\<close>: the remote \<^verbatim>\<open>sts.assume_role\<close> call.
  \<^item> \<open>client_invoke_model\<close>: the remote \<^verbatim>\<open>client.invoke_model\<close> call, retries of the SDK
    included. Its answer may depend on the client, on every call issued before, and on the
    arguments. It raises, or returns a response; of the response the notebook reads only
    \<^verbatim>\<open>response.get('body')\<close>, which is \<open>None\<close> or a stream holding text.
\<close>

record 'a externals =
  json_dumps :: "pyval \<Rightarrow> exn + string"
  json_loads :: "string \<Rightarrow> exn + pyval"
  builtin_str :: "pyval \<Rightarrow> string"
  np_array :: "pyval \<Rightarrow> exn + 'a"
  environ_get :: "string \<Rightarrow> string option"
  sts_assume_role :: "boto_client \<Rightarrow> string \<Rightarrow> string \<Rightarrow> string option \<Rightarrow> exn + sts_credentials"
  client_invoke_model ::
    "boto_client \<Rightarrow> (boto_client \<times> invoke_args) list \<Rightarrow> invoke_args \<Rightarrow> exn + string option"

text \<open>\<^verbatim>\<open>str(v)\<close>: a string is its own \<^verbatim>\<open>str\<close>.\<close>

fun py_str :: "'a externals \<Rightarrow> pyval \<Rightarrow> string" where
  "py_str ext (PStr s) = s"
| "py_str ext v = builtin_str ext v"

text \<open>\<^verbatim>\<open>json.loads(v)\<close>: a value that is not text raises \<open>TypeError\<close>.\<close>

fun py_json_loads :: "'a externals \<Rightarrow> pyval \<Rightarrow> exn + pyval" where
  "py_json_loads ext (PStr s) = json_loads ext s"
| "py_json_loads ext v = Inl TypeError"

section \<open>Cell 4: \<^verbatim>\<open>get_bedrock_client\<close>\<close>

text \<open>
  The function builds the session and client keyword arguments, reads \<^verbatim>\<open>AWS_PROFILE\<close>, fixes
  the retry configuration, assumes a role over STS when one is given, and creates the client.
  Constructing a session or a client issues no request and is modelled as returning; the only
  remote call is \<^verbatim>\<open>sts.assume_role\<close>, whose exception propagates. The \<^verbatim>\<open>print\<close> calls write
  to the cell's output and touch nothing else.
\<close>

definition get_bedrock_client ::
  "'a externals \<Rightarrow> string option \<Rightarrow> string option \<Rightarrow> bool \<Rightarrow> string option \<Rightarrow> string option
     \<Rightarrow> exn + boto_client" where
  "get_bedrock_client ext assumed_role region runtime external_id ep_url =
     (let target_region = region;
          profile_name = environ_get ext ''AWS_PROFILE'';
          session_profile = (if opt_truthy profile_name then profile_name else None);
          retry_config = \<lparr>cfg_region_name = target_region,
                          cfg_retries = \<lparr>max_attempts = 10, mode = ''standard''\<rparr>\<rparr>;
          sts = \<lparr>session_region_name = target_region, session_profile_name = session_profile,
                  service_name = ''sts'', client_config = None, endpoint_url = None,
                  client_region_name = None, client_credentials = None\<rparr>;
          assumed =
            (if opt_truthy assumed_role
             then (case sts_assume_role ext sts (str_opt assumed_role) ''langchain-llm-1''
                          (if opt_truthy external_id then external_id else None) of
                     Inl e \<Rightarrow> Inl e
                   | Inr response \<Rightarrow> Inr (Some response))
             else Inr None);
          service = (if runtime then ''bedrock-runtime'' else ''bedrock'')
      in case assumed of
           Inl e \<Rightarrow> Inl e
         | Inr credentials \<Rightarrow>
             Inr \<lparr>session_region_name = target_region, session_profile_name = session_profile,
                  service_name = service, client_config = Some retry_config,
                  endpoint_url = (if opt_truthy ep_url then ep_url else None),
                  client_region_name = target_region, client_credentials = credentials\<rparr>)"

text \<open>\<^verbatim>\<open>get_bedrock_client()\<close> with every default, as cells 8 and 14 call it.\<close>

definition get_bedrock_client_default :: "'a externals \<Rightarrow> exn + boto_client" where
  "get_bedrock_client_default ext =
     get_bedrock_client ext None (Some ''us-east-1'') True None None"

section \<open>Cell 6: the helper class \<^verbatim>\<open>TitanEmbeddings\<close>\<close>

text \<open>An instance: its two attributes, and the two class attributes it reads through
  \<^verbatim>\<open>self\<close>.\<close>

record TitanEmbeddings =
  bedrock_boto3 :: boto_client
  model_id :: string
  accept :: string
  content_type :: string

text \<open>\<^verbatim>\<open>boto3.client(service_name='bedrock-runtime', region_name=region_name)\<close>: the client
  the constructor creates when it is given none.\<close>

definition boto3_client :: "string \<Rightarrow> boto_client" where
  "boto3_client region_name =
     \<lparr>session_region_name = None, session_profile_name = None,
      service_name = ''bedrock-runtime'', client_config = None, endpoint_url = None,
      client_region_name = Some region_name, client_credentials = None\<rparr>"

definition TitanEmbeddings_init :: "string \<Rightarrow> boto_client option \<Rightarrow> string \<Rightarrow> TitanEmbeddings" where
  "TitanEmbeddings_init model boto3_client_arg region_name =
     \<lparr>bedrock_boto3 = (case boto3_client_arg of
                          Some c \<Rightarrow> c
                        | None \<Rightarrow> boto3_client region_name),
      model_id = model,
      accept = ''application/json'',
      content_type = ''application/json''\<rparr>"

text \<open>The dict literal that \<^verbatim>\<open>__call__\<close> serialises.\<close>

definition call_payload :: "pyval \<Rightarrow> int \<Rightarrow> bool \<Rightarrow> pyval" where
  "call_payload text_arg dimensions normalize_arg =
     PDict [(''inputText'', text_arg), (''dimensions'', PInt dimensions),
            (''normalize'', PBool normalize_arg)]"

text \<open>The keyword arguments \<^verbatim>\<open>__call__\<close> hands to \<^verbatim>\<open>invoke_model\<close>, for the body it
  has serialised.\<close>

definition request_args :: "TitanEmbeddings \<Rightarrow> string \<Rightarrow> invoke_args" where
  "request_args self body =
     \<lparr>arg_body = body,
      arg_modelId = model_id self,
      arg_accept = accept self,
      arg_contentType = content_type self\<rparr>"

text \<open>\<^verbatim>\<open>json.loads(response.get('body').read())['embedding']\<close>: a response without a body
  gives \<^verbatim>\<open>None.read()\<close>, an \<open>AttributeError\<close>.\<close>

definition read_embedding :: "'a externals \<Rightarrow> string option \<Rightarrow> exn + pyval" where
  "read_embedding ext response =
     (case response of
        None \<Rightarrow> Inl AttributeError
      | Some raw \<Rightarrow>
          (case json_loads ext raw of
             Inl e \<Rightarrow> Inl e
           | Inr response_body \<Rightarrow> py_getitem response_body ''embedding''))"

text \<open>
  \<^verbatim>\<open>TitanEmbeddings.__call__(text, dimensions, normalize)\<close>. The state is the instance and
  the list of \<^verbatim>\<open>invoke_model\<close> calls issued so far (oldest first); the method returns its
  result, or the exception it raised, with the state it leaves. \<^verbatim>\<open>json.dumps\<close> runs first,
  outside any \<^verbatim>\<open>try\<close>: when it raises, the method is left before \<^verbatim>\<open>invoke_model\<close> is
  called.
\<close>

definition TitanEmbeddings_call ::
  "'a externals \<Rightarrow> pyval \<Rightarrow> int \<Rightarrow> bool \<Rightarrow> TitanEmbeddings \<times> (boto_client \<times> invoke_args) list
     \<Rightarrow> (exn + pyval) \<times> TitanEmbeddings \<times> (boto_client \<times> invoke_args) list" where
  "TitanEmbeddings_call ext text_arg dimensions normalize_arg st =
     (let self = fst st;
          issued_before = snd st
      in case json_dumps ext (call_payload text_arg dimensions normalize_arg) of
           Inl e \<Rightarrow> (Inl e, self, issued_before)
         | Inr body \<Rightarrow>
             (let args = request_args self body;
                  issued_after = issued_before @ [(bedrock_boto3 self, args)]
              in case client_invoke_model ext (bedrock_boto3 self) issued_before args of
                   Inl e \<Rightarrow> (Inl e, self, issued_after)
                 | Inr response \<Rightarrow> (read_embedding ext response, self, issued_after)))"

section \<open>Cells 8, 10 and 12: the notebook's own calls\<close>

text \<open>The module-level names the later cells read, and the calls issued so far.\<close>

record notebook =
  boto3_bedrock_runtime :: boto_client
  bedrock_embeddings :: TitanEmbeddings
  issued :: "(boto_client \<times> invoke_args) list"

definition modelId :: string where
  "modelId = ''amazon.titan-embed-text-v2:0''"


definition prompt_data :: string where
  "prompt_data = ''Amazon Bedrock supports foundation models from industry-leading providers such as AI21 Labs, Anthropic, Stability AI, and Amazon. Choose the model that is best suited to achieving your unique goals.''"

definition sample_model_input :: pyval where
  "sample_model_input =
     PDict [(''inputText'', PStr prompt_data), (''dimensions'', PInt 256),
            (''normalize'', PBool True)]"

text \<open>
  Cell 10, up to the assignment of \<^verbatim>\<open>embedding\<close>: serialise \<^verbatim>\<open>sample_model_input\<close>, call
  \<^verbatim>\<open>boto3_bedrock_runtime.invoke_model\<close>, parse the body and read
  \<^verbatim>\<open>response_body.get("embedding")\<close>.
\<close>

definition cell10 :: "'a externals \<Rightarrow> notebook \<Rightarrow> (exn + pyval) \<times> notebook" where
  "cell10 ext nb =
     (case json_dumps ext sample_model_input of
        Inl e \<Rightarrow> (Inl e, nb)
      | Inr body \<Rightarrow>
          (let args = \<lparr>arg_body = body, arg_modelId = modelId,
                       arg_accept = ''application/json'', arg_contentType = ''application/json''\<rparr>;
               nb' = nb\<lparr>issued := issued nb @ [(boto3_bedrock_runtime nb, args)]\<rparr>
           in case client_invoke_model ext (boto3_bedrock_runtime nb) (issued nb) args of
                Inl e \<Rightarrow> (Inl e, nb')
              | Inr response \<Rightarrow>
                  (case response of
                     None \<Rightarrow> (Inl AttributeError, nb')
                   | Some raw \<Rightarrow>
                       (case json_loads ext raw of
                          Inl e \<Rightarrow> (Inl e, nb')
                        | Inr response_body \<Rightarrow> (py_get response_body ''embedding'', nb')))))"

text \<open>A call of the module-level helper \<^verbatim>\<open>bedrock_embeddings(text=..., dimensions=...,
  normalize=...)\<close>.\<close>

definition call_bedrock_embeddings ::
  "'a externals \<Rightarrow> pyval \<Rightarrow> int \<Rightarrow> bool \<Rightarrow> notebook \<Rightarrow> (exn + pyval) \<times> notebook" where
  "call_bedrock_embeddings ext text_arg dimensions normalize_arg nb =
     (case TitanEmbeddings_call ext text_arg dimensions normalize_arg
             (bedrock_embeddings nb, issued nb) of
        (r, helper, issued_after) \<Rightarrow>
          (r, nb\<lparr>bedrock_embeddings := helper, issued := issued_after\<rparr>))"

text \<open>Cell 12: \<^verbatim>\<open>bedrock_embeddings(text=prompt_data, dimensions=256, normalize=True)\<close>.\<close>

definition cell12 :: "'a externals \<Rightarrow> notebook \<Rightarrow> (exn + pyval) \<times> notebook" where
  "cell12 ext nb = call_bedrock_embeddings ext (PStr prompt_data) 256 True nb"

section \<open>Cell 14: the benchmark adapter \<^verbatim>\<open>TitanV2Model\<close>\<close>

text \<open>
  An instance has the attributes \<^verbatim>\<open>br_embeddings\<close> and \<^verbatim>\<open>dim\<close>. \<^verbatim>\<open>__init__\<close> binds
  \<^verbatim>\<open>br_embeddings\<close> to \<^verbatim>\<open>None\<close> and calls \<^verbatim>\<open>_init_connection()\<close>, which rebinds it and
  binds \<^verbatim>\<open>dim\<close>, or raises out of \<^verbatim>\<open>get_bedrock_client\<close> before it binds either; so every
  instance that exists has both.
\<close>

record TitanV2Model =
  br_embeddings :: TitanEmbeddings
  dim :: int

text \<open>\<^verbatim>\<open>_init_connection(self, dim=256)\<close>: the attributes it binds.\<close>

definition init_connection :: "'a externals \<Rightarrow> int \<Rightarrow> exn + TitanV2Model" where
  "init_connection ext dim_arg =
     (case get_bedrock_client_default ext of
        Inl e \<Rightarrow> Inl e
      | Inr c \<Rightarrow>
          Inr \<lparr>br_embeddings = TitanEmbeddings_init modelId (Some c) ''us-east-1'',
               dim = dim_arg\<rparr>)"

text \<open>\<^verbatim>\<open>TitanV2Model()\<close>: \<^verbatim>\<open>_init_connection\<close> with its default \<^verbatim>\<open>dim\<close>.\<close>

definition TitanV2Model_init :: "'a externals \<Rightarrow> exn + TitanV2Model" where
  "TitanV2Model_init ext = init_connection ext 256"

text \<open>One element of the list comprehension of \<^verbatim>\<open>process_dict_text\<close>.\<close>

definition dict_fragment :: "'a externals \<Rightarrow> string \<times> pyval \<Rightarrow> string" where
  "dict_fragment ext item =
     (case item of
        (key, val) \<Rightarrow>
          if py_in ''title'' (py_lower key)
          then py_strip key @ '' '' @ py_strip (py_str ext val)
          else py_strip (py_str ext val))"

text \<open>\<^verbatim>\<open>process_dict_text(self, single_text_dict)\<close>; \<^verbatim>\<open>self\<close> is not read. A value that is not
  a dict has no \<^verbatim>\<open>items\<close>.\<close>

fun process_dict_text :: "'a externals \<Rightarrow> pyval \<Rightarrow> exn + pyval" where
  "process_dict_text ext (PDict single_text_dict) =
     Inr (PStr (take 30000 (py_join '' '' (map (dict_fragment ext) single_text_dict))))"
| "process_dict_text ext v = Inl AttributeError"

text \<open>
  \<^verbatim>\<open>reorg_text(self, single_text)\<close>. The first \<^verbatim>\<open>process_dict_text\<close> stands outside the
  \<^verbatim>\<open>try\<close>; the bare \<^verbatim>\<open>except: pass\<close> swallows whatever \<^verbatim>\<open>json.loads\<close> or the second
  \<^verbatim>\<open>process_dict_text\<close> raises and leaves \<^verbatim>\<open>single_text\<close> as it was.
\<close>

definition reorg_text :: "'a externals \<Rightarrow> pyval \<Rightarrow> exn + pyval" where
  "reorg_text ext single_text =
     (case (if isinstance_dict single_text then process_dict_text ext single_text
            else Inr single_text) of
        Inl e \<Rightarrow> Inl e
      | Inr t1 \<Rightarrow>
          (let t2 = (if \<not> truthy t1 then PStr ''0'' else t1)
           in case py_json_loads ext t2 of
                Inl e \<Rightarrow> Inr t2
              | Inr single_text_dict \<Rightarrow>
                  (case process_dict_text ext single_text_dict of
                     Inl e \<Rightarrow> Inr t2
                   | Inr t3 \<Rightarrow> Inr t3)))"

text \<open>
  The loop of \<^verbatim>\<open>invoke_model\<close>, with \<^verbatim>\<open>list_embeddings\<close> as accumulator. Each iteration
  reorganises the text and calls the module-level \<^verbatim>\<open>bedrock_embeddings\<close> (not
  \<^verbatim>\<open>self.br_embeddings\<close>) with \<^verbatim>\<open>dimensions=self.dim, normalize=True\<close>. An exception ends
  the loop and leaves the method.
\<close>

fun invoke_model_loop ::
  "'a externals \<Rightarrow> TitanV2Model \<Rightarrow> pyval list \<Rightarrow> pyval list \<Rightarrow> notebook
     \<Rightarrow> (exn + pyval list) \<times> notebook" where
  "invoke_model_loop ext self [] list_embeddings nb = (Inr list_embeddings, nb)"
| "invoke_model_loop ext self (single_text # rest) list_embeddings nb =
     (case reorg_text ext single_text of
        Inl e \<Rightarrow> (Inl e, nb)
      | Inr single_text' \<Rightarrow>
          (case call_bedrock_embeddings ext single_text' (dim self) True nb of
             (Inl e, nb') \<Rightarrow> (Inl e, nb')
           | (Inr single_embed, nb') \<Rightarrow>
               invoke_model_loop ext self rest (list_embeddings @ [single_embed]) nb'))"

definition invoke_model ::
  "'a externals \<Rightarrow> TitanV2Model \<Rightarrow> pyval list \<Rightarrow> notebook \<Rightarrow> (exn + pyval list) \<times> notebook" where
  "invoke_model ext self text_list nb = invoke_model_loop ext self text_list [] nb"

definition reshape_titan_embeddings :: "'a \<Rightarrow> 'a" where
  "reshape_titan_embeddings query_embeddings = query_embeddings"

text \<open>\<^verbatim>\<open>encode\<close>, \<^verbatim>\<open>encode_queries\<close> and \<^verbatim>\<open>encode_corpus\<close> have the same body:
  \<^verbatim>\<open>invoke_model\<close>, then \<^verbatim>\<open>np.array\<close>, then \<^verbatim>\<open>reshape_titan_embeddings\<close>.\<close>

definition encode ::
  "'a externals \<Rightarrow> TitanV2Model \<Rightarrow> pyval list \<Rightarrow> notebook \<Rightarrow> (exn + 'a) \<times> notebook" where
  "encode ext self queries nb =
     (case invoke_model ext self queries nb of
        (Inl e, nb') \<Rightarrow> (Inl e, nb')
      | (Inr embedding_list, nb') \<Rightarrow>
          (case np_array ext (PList embedding_list) of
             Inl e \<Rightarrow> (Inl e, nb')
           | Inr a \<Rightarrow> (Inr (reshape_titan_embeddings a), nb')))"

definition encode_queries ::
  "'a externals \<Rightarrow> TitanV2Model \<Rightarrow> pyval list \<Rightarrow> notebook \<Rightarrow> (exn + 'a) \<times> notebook" where
  "encode_queries ext self queries nb =
     (case invoke_model ext self queries nb of
        (Inl e, nb') \<Rightarrow> (Inl e, nb')
      | (Inr embedding_list, nb') \<Rightarrow>
          (case np_array ext (PList embedding_list) of
             Inl e \<Rightarrow> (Inl e, nb')
           | Inr a \<Rightarrow> (Inr (reshape_titan_embeddings a), nb')))"

definition encode_corpus ::
  "'a externals \<Rightarrow> TitanV2Model \<Rightarrow> pyval list \<Rightarrow> notebook \<Rightarrow> (exn + 'a) \<times> notebook" where
  "encode_corpus ext self corpus nb =
     (case invoke_model ext self corpus nb of
        (Inl e, nb') \<Rightarrow> (Inl e, nb')
      | (Inr embedding_list, nb') \<Rightarrow>
          (case np_array ext (PList embedding_list) of
             Inl e \<Rightarrow> (Inl e, nb')
           | Inr a \<Rightarrow> (Inr (reshape_titan_embeddings a), nb')))"

text \<open>Cell 15: \<^verbatim>\<open>TitanV2Model().encode_queries(["this is a test"])\<close>.\<close>

definition cell15 :: "'a externals \<Rightarrow> notebook \<Rightarrow> (exn + 'a) \<times> notebook" where
  "cell15 ext nb =
     (case TitanV2Model_init ext of
        Inl e \<Rightarrow> (Inl e, nb)
      | Inr model \<Rightarrow> encode_queries ext model [PStr ''this is a test''] nb)"

section \<open>Derived notions used in the statements\<close>

text \<open>The requests one call of the helper \<open>self\<close> issues: the one request with the serialised
  body, or none when \<^verbatim>\<open>json.dumps\<close> raises.\<close>

definition call_requests ::
  "'a externals \<Rightarrow> TitanEmbeddings \<Rightarrow> pyval \<Rightarrow> int \<Rightarrow> bool \<Rightarrow> (boto_client \<times> invoke_args) list" where
  "call_requests ext self text_arg dimensions normalize_arg =
     (case json_dumps ext (call_payload text_arg dimensions normalize_arg) of
        Inl e \<Rightarrow> []
      | Inr body \<Rightarrow> [(bedrock_boto3 self, request_args self body)])"

text \<open>What one call of the helper \<open>self\<close> yields after the calls \<open>issued_before\<close>: the
  exception of \<^verbatim>\<open>json.dumps\<close>, the exception of the SDK, or the outcome of reading the
  embedding out of the response.\<close>

definition reply ::
  "'a externals \<Rightarrow> TitanEmbeddings \<Rightarrow> (boto_client \<times> invoke_args) list \<Rightarrow> pyval \<Rightarrow> int \<Rightarrow> bool
     \<Rightarrow> exn + pyval" where
  "reply ext self issued_before text_arg dimensions normalize_arg =
     (case json_dumps ext (call_payload text_arg dimensions normalize_arg) of
        Inl e \<Rightarrow> Inl e
      | Inr body \<Rightarrow>
          (case client_invoke_model ext (bedrock_boto3 self) issued_before
                  (request_args self body) of
             Inl e \<Rightarrow> Inl e
           | Inr response \<Rightarrow> read_embedding ext response))"

text \<open>The requests that the helper \<open>g\<close> issues for the texts \<open>ts\<close>, text by text and in their
  order, with \<^verbatim>\<open>dimensions=d, normalize=True\<close>.\<close>

definition requests_for ::
  "'a externals \<Rightarrow> TitanEmbeddings \<Rightarrow> int \<Rightarrow> pyval list \<Rightarrow> (boto_client \<times> invoke_args) list" where
  "requests_for ext g d ts = concat (map (\<lambda>t. call_requests ext g t d True) ts)"


text \<open>The text \<^verbatim>\<open>reorg_text\<close> makes of an input (on these values it always returns
  one).\<close>

definition reorg_value :: "'a externals \<Rightarrow> pyval \<Rightarrow> pyval" where
  "reorg_value ext x = (case reorg_text ext x of Inr t \<Rightarrow> t | Inl e \<Rightarrow> x)"

text \<open>The output dimensions the model's documentation lists.\<close>

definition titan_dimensions :: "int set" where
  "titan_dimensions = {256, 512, 1024}"

text \<open>The least positive integer with more than 4300 decimal digits: CPython 3.11, the
  notebook's kernel, refuses to write it as text.\<close>

definition beyond_digit_limit :: int where
  "beyond_digit_limit = 10 ^ 4300"

section \<open>A scripted run\<close>

text \<open>
  A test double for the libraries and the endpoint, for running the model on concrete
  inputs. Its \<^verbatim>\<open>json\<close> knows the documents listed here, on which it agrees with CPython
  3.11 (any other text is reported as undecodable, any other value is written as
  \<^verbatim>\<open>null\<close>);
  its endpoint gives every request the same answer \<open>answer\<close>; \<^verbatim>\<open>AWS_PROFILE\<close> is unset.
\<close>

definition embedding_doc :: string where
  \<open>embedding_doc = ''{"embedding": [0.5, -2.0]}''\<close>

definition embedding_val :: pyval where
  "embedding_val = PList [PFloat 0x3FE0000000000000, PFloat 0xC000000000000000]"

definition scripted_loads :: "string \<Rightarrow> exn + pyval" where
  "scripted_loads s =
     (if s = ''0'' then Inr (PInt 0)
      else if s = ''{}'' then Inr (PDict [])
      else if s = embedding_doc then Inr (PDict [(''embedding'', embedding_val)])
      else Inl JSONDecodeError)"

definition scripted_dumps :: "pyval \<Rightarrow> exn + string" where
  \<open>scripted_dumps v =
     (if v = call_payload (PStr ''a'') 256 True
      then Inr ''{"inputText": "a", "dimensions": 256, "normalize": true}''
      else if v = call_payload (PStr ''b'') 256 True
      then Inr ''{"inputText": "b", "dimensions": 256, "normalize": true}''
      else if v = call_payload (PStr ''0'') 256 True
      then Inr ''{"inputText": "0", "dimensions": 256, "normalize": true}''
      else if v = call_payload (PStr ''a'') 7 True
      then Inr ''{"inputText": "a", "dimensions": 7, "normalize": true}''
      else if v = call_payload (PStr ''a'') 2 True
      then Inr ''{"inputText": "a", "dimensions": 2, "normalize": true}''
      else if v = sample_model_input
      then Inr (''{"inputText": "'' @ prompt_data @ ''", "dimensions": 256, "normalize": true}'')
      else if v = call_payload (PStr ''a'') beyond_digit_limit True
      then Inl ValueError
      else Inr ''null'')\<close>

definition scripted_str :: "pyval \<Rightarrow> string" where
  "scripted_str v =
     (if v = PNone then ''None'' else if v = PBool True then ''True''
      else if v = PBool False then ''False'' else if v = PInt 0 then ''0'' else ''?'')"

definition scripted :: "exn + string option \<Rightarrow> pyval externals" where
  "scripted answer =
     \<lparr>json_dumps = scripted_dumps,
      json_loads = scripted_loads,
      builtin_str = scripted_str,
      np_array = Inr,
      environ_get = (\<lambda>name. None),
      sts_assume_role = (\<lambda>c role session_name external_id. Inl (SdkError ''AccessDenied'')),
      client_invoke_model = (\<lambda>c issued_before args. answer)\<rparr>"

text \<open>The client, the helper, the notebook and the adapter that cells 8 and 14 build in
  the scripted run.\<close>

definition scripted_client :: boto_client where
  "scripted_client =
     \<lparr>session_region_name = Some ''us-east-1'', session_profile_name = None,
      service_name = ''bedrock-runtime'',
      client_config = Some \<lparr>cfg_region_name = Some ''us-east-1'',
                             cfg_retries = \<lparr>max_attempts = 10, mode = ''standard''\<rparr>\<rparr>,
      endpoint_url = None, client_region_name = Some ''us-east-1'',
      client_credentials = None\<rparr>"

definition scripted_helper :: TitanEmbeddings where
  "scripted_helper =
     \<lparr>bedrock_boto3 = scripted_client, model_id = ''amazon.titan-embed-text-v2:0'',
      accept = ''application/json'', content_type = ''application/json''\<rparr>"

definition scripted_notebook :: notebook where
  "scripted_notebook =
     \<lparr>boto3_bedrock_runtime = scripted_client, bedrock_embeddings = scripted_helper,
      issued = []\<rparr>"

definition scripted_model :: TitanV2Model where
  "scripted_model = \<lparr>br_embeddings = scripted_helper, dim = 256\<rparr>"



text \<open>The answers used below: an embedding, an object without one, and a throttled call.\<close>

definition answers_embedding :: "exn + string option" where
  "answers_embedding = Inr (Some embedding_doc)"

definition answers_empty_object :: "exn + string option" where
  "answers_empty_object = Inr (Some ''{}'')"

definition answers_throttled :: "exn + string option" where
  "answers_throttled = Inl (SdkError ''ThrottlingException'')"

section \<open>The method call and the loop, unfolded\<close>

lemma call_unfold:
  "TitanEmbeddings_call ext t d n (self, h) =
     (reply ext self h t d n, self, h @ call_requests ext self t d n)"
  by (simp add: TitanEmbeddings_call_def reply_def call_requests_def Let_def split: sum.splits)

lemma helper_call_unfold:
  "call_bedrock_embeddings ext t d n nb =
     (reply ext (bedrock_embeddings nb) (issued nb) t d n,
      nb\<lparr>issued := issued nb @ call_requests ext (bedrock_embeddings nb) t d n\<rparr>)"
  by (simp add: call_bedrock_embeddings_def call_unfold)

lemma reply_serialised:
  "json_dumps ext (call_payload t d n) = Inr body \<Longrightarrow>
     reply ext self h t d n =
       (case client_invoke_model ext (bedrock_boto3 self) h (request_args self body) of
          Inl e \<Rightarrow> Inl e
        | Inr response \<Rightarrow> read_embedding ext response)"
  by (simp add: reply_def)



lemma reorg_text_total: "\<exists>t. reorg_text ext x = Inr t"
  by (cases x) (simp_all add: reorg_text_def Let_def split: sum.splits)

lemma reorg_text_value: "reorg_text ext x = Inr (reorg_value ext x)"
  using reorg_text_total [of ext x] by (auto simp: reorg_value_def)

lemma requests_for_simps:
  "requests_for ext g d [] = []"
  "requests_for ext g d (t # ts) = call_requests ext g t d True @ requests_for ext g d ts"
  by (simp_all add: requests_for_def)


lemma loop_Cons:
  "invoke_model_loop ext self (x # xs) acc nb =
     (case reply ext (bedrock_embeddings nb) (issued nb) (reorg_value ext x) (dim self) True of
        Inl e \<Rightarrow>
          (Inl e, nb\<lparr>issued := issued nb @
             requests_for ext (bedrock_embeddings nb) (dim self) [reorg_value ext x]\<rparr>)
      | Inr v \<Rightarrow>
          invoke_model_loop ext self xs (acc @ [v])
            (nb\<lparr>issued := issued nb @
               requests_for ext (bedrock_embeddings nb) (dim self) [reorg_value ext x]\<rparr>))"
  by (simp add: reorg_text_value helper_call_unfold requests_for_simps split: sum.splits)

declare invoke_model_loop.simps(2) [simp del]

lemma loop_issued_prefix:
  "\<exists>k\<le>length xs.
     snd (invoke_model_loop ext self xs acc nb) =
       nb\<lparr>issued := issued nb @
         requests_for ext (bedrock_embeddings nb) (dim self) (take k (map (reorg_value ext) xs))\<rparr>"
proof (induction xs arbitrary: acc nb)
  case Nil
  show ?case by (simp add: requests_for_simps)
next
  case (Cons x xs)
  let ?g = "bedrock_embeddings nb"
  let ?nb' = "nb\<lparr>issued := issued nb @ requests_for ext ?g (dim self) [reorg_value ext x]\<rparr>"
  show ?case
  proof (cases "reply ext ?g (issued nb) (reorg_value ext x) (dim self) True")
    case (Inl e)
    then have "snd (invoke_model_loop ext self (x # xs) acc nb) = ?nb'"
      by (simp add: loop_Cons)
    then have "snd (invoke_model_loop ext self (x # xs) acc nb) =
        nb\<lparr>issued := issued nb @
          requests_for ext ?g (dim self) (take 1 (map (reorg_value ext) (x # xs)))\<rparr>"
      by simp
    then show ?thesis by (intro exI [of _ 1]) simp
  next
    case (Inr v)
    from Cons.IH [of "acc @ [v]" ?nb'] obtain k where k: "k \<le> length xs"
      and eq: "snd (invoke_model_loop ext self xs (acc @ [v]) ?nb') =
        ?nb'\<lparr>issued := issued ?nb' @
          requests_for ext (bedrock_embeddings ?nb') (dim self) (take k (map (reorg_value ext) xs))\<rparr>"
      by blast
    have "snd (invoke_model_loop ext self (x # xs) acc nb) =
        nb\<lparr>issued := issued nb @
          requests_for ext ?g (dim self) (take (Suc k) (map (reorg_value ext) (x # xs)))\<rparr>"
      using Inr eq by (simp add: loop_Cons requests_for_simps)
    with k show ?thesis by (intro exI [of _ "Suc k"]) simp
  qed
qed



lemma loop_self:
  "invoke_model_loop ext (self\<lparr>br_embeddings := b\<rparr>) xs acc nb = invoke_model_loop ext self xs acc nb"
  by (induction xs arbitrary: acc nb) (simp_all add: loop_Cons split: sum.splits)

lemma invoke_model_issued:
  "\<exists>k\<le>length xs.
     snd (invoke_model ext model xs nb) =
       nb\<lparr>issued := issued nb @
         requests_for ext (bedrock_embeddings nb) (dim model) (take k (map (reorg_value ext) xs))\<rparr>"
  unfolding invoke_model_def by (rule loop_issued_prefix)

subsection \<open>The scripted run\<close>

lemma beyond_large: "1024 < beyond_digit_limit"
proof -
  have small: "(1024::int) < 10 ^ 4" by simp
  have grows: "(10::int) ^ 4 \<le> 10 ^ 4300" by (rule power_increasing) simp_all
  show ?thesis unfolding beyond_digit_limit_def by (rule less_le_trans [OF small grows])
qed

lemma beyond_neq:
  "beyond_digit_limit \<noteq> 256" "beyond_digit_limit \<noteq> 7" "beyond_digit_limit \<noteq> 2"
  using beyond_large by simp_all

lemmas scripted_defs =
  scripted_def scripted_loads_def scripted_dumps_def scripted_str_def scripted_client_def
  scripted_helper_def scripted_notebook_def scripted_model_def embedding_doc_def
  embedding_val_def answers_embedding_def answers_empty_object_def answers_throttled_def
  call_payload_def request_args_def sample_model_input_def prompt_data_def

lemma scripted_dumps_known:
  \<open>json_dumps (scripted ans) (call_payload (PStr ''a'') 256 True) =
     Inr ''{"inputText": "a", "dimensions": 256, "normalize": true}''\<close>
  \<open>json_dumps (scripted ans) (call_payload (PStr ''b'') 256 True) =
     Inr ''{"inputText": "b", "dimensions": 256, "normalize": true}''\<close>
  \<open>json_dumps (scripted ans) (call_payload (PStr ''0'') 256 True) =
     Inr ''{"inputText": "0", "dimensions": 256, "normalize": true}''\<close>
  \<open>json_dumps (scripted ans) (call_payload (PStr ''a'') 7 True) =
     Inr ''{"inputText": "a", "dimensions": 7, "normalize": true}''\<close>
  \<open>json_dumps (scripted ans) (call_payload (PStr ''a'') 2 True) =
     Inr ''{"inputText": "a", "dimensions": 2, "normalize": true}''\<close>
  by (simp_all add: scripted_def scripted_dumps_def call_payload_def)

lemma scripted_dumps_prompt:
  \<open>json_dumps (scripted ans) sample_model_input =
     Inr (''{"inputText": "'' @ prompt_data @ ''", "dimensions": 256, "normalize": true}'')\<close>
  by (simp add: scripted_def scripted_dumps_def call_payload_def sample_model_input_def
      prompt_data_def)

lemma scripted_dumps_beyond:
  "json_dumps (scripted ans) (call_payload (PStr ''a'') beyond_digit_limit True) = Inl ValueError"
  by (simp add: scripted_def scripted_dumps_def call_payload_def sample_model_input_def
      beyond_neq)

lemma scripted_endpoint: "client_invoke_model (scripted ans) c h a = ans"
  by (simp add: scripted_def)

lemma scripted_loads_known:
  "json_loads (scripted ans) embedding_doc = Inr (PDict [(''embedding'', embedding_val)])"
  "json_loads (scripted ans) ''0'' = Inr (PInt 0)"
  "json_loads (scripted ans) ''{}'' = Inr (PDict [])"
  "json_loads (scripted ans) ''oops'' = Inl JSONDecodeError"
  by (simp_all add: scripted_def scripted_loads_def embedding_doc_def)

lemma reply_scripted_embedding:
  "json_dumps (scripted answers_embedding) (call_payload t d n) = Inr body \<Longrightarrow>
     reply (scripted answers_embedding) g h t d n = Inr embedding_val"
  by (simp add: reply_serialised scripted_endpoint answers_embedding_def read_embedding_def
      scripted_loads_known)


lemma scripted_notebook_simps:
  "bedrock_embeddings scripted_notebook = scripted_helper"
  "boto3_bedrock_runtime scripted_notebook = scripted_client"
  "issued scripted_notebook = []"
  "bedrock_boto3 scripted_helper = scripted_client"
  "dim scripted_model = 256"
  by (simp_all add: scripted_notebook_def scripted_helper_def scripted_model_def)

lemma scripted_reorg_value:
  "reorg_value (scripted ans) (PStr ''a'') = PStr ''a''"
  "reorg_value (scripted ans) (PStr ''b'') = PStr ''b''"
  by (simp_all add: reorg_value_def reorg_text_def scripted_def scripted_loads_def
      embedding_doc_def)

lemma scripted_get_client:
  "get_bedrock_client (scripted ans) None (Some ''us-east-1'') True None None = Inr scripted_client"
  by (simp add: get_bedrock_client_def Let_def scripted_def scripted_client_def)


lemma scripted_init: "TitanV2Model_init (scripted ans) = Inr scripted_model"
  by (simp add: TitanV2Model_init_def init_connection_def get_bedrock_client_default_def
      scripted_get_client TitanEmbeddings_init_def modelId_def scripted_model_def
      scripted_helper_def)

lemma scripted_helper_init:
  "bedrock_embeddings scripted_notebook =
     TitanEmbeddings_init modelId (Some (boto3_bedrock_runtime scripted_notebook)) ''us-east-1''"
  by (simp add: TitanEmbeddings_init_def modelId_def scripted_notebook_def scripted_helper_def)

section \<open>The claims\<close>

text \<open>
  C1 as stated fails: \<^verbatim>\<open>json.dumps\<close> runs before \<^verbatim>\<open>invoke_model\<close> and can raise. With
  \<^verbatim>\<open>dimensions=10**4300\<close> it raises \<open>ValueError\<close>, and \<^verbatim>\<open>__call__\<close> is left without any
  remote call, where the claim has exactly one call for every helper call.
\<close>

theorem C1_counterexample:
  "TitanEmbeddings_call (scripted answers_embedding) (PStr ''a'') beyond_digit_limit True
     (scripted_helper, []) = (Inl ValueError, scripted_helper, [])
   \<and> json_dumps (scripted answers_embedding)
        (PDict [(''inputText'', PStr ''a''), (''dimensions'', PInt beyond_digit_limit),
                (''normalize'', PBool True)]) = Inl ValueError"
proof -
  have "json_dumps (scripted answers_embedding)
          (call_payload (PStr ''a'') beyond_digit_limit True) = Inl ValueError"
    by (rule scripted_dumps_beyond)
  then show ?thesis
    by (simp add: call_unfold reply_def call_requests_def call_payload_def)
qed

text \<open>
  C1, amended. For every call \<^verbatim>\<open>TitanEmbeddings.__call__(text, dimensions, normalize)\<close> on
  which \<^verbatim>\<open>json.dumps\<close> serialises the three-field object
  \<^verbatim>\<open>{"inputText": text, "dimensions": dimensions, "normalize": normalize}\<close>, the body sent to
  the endpoint is exactly that serialisation, of those three fields and no other, and
  exactly one \<^verbatim>\<open>invoke_model\<close> call is made, whatever the endpoint answers. When
  \<^verbatim>\<open>json.dumps\<close> raises, its exception leaves \<^verbatim>\<open>__call__\<close> and no call is made.
\<close>

theorem C1_request_when_serialised:
  "(json_dumps ext (PDict [(''inputText'', text_arg), (''dimensions'', PInt dimensions),
                           (''normalize'', PBool normalize_arg)]) = Inr body \<longrightarrow>
      snd (snd (TitanEmbeddings_call ext text_arg dimensions normalize_arg (self, issued_before))) =
        issued_before @
          [(bedrock_boto3 self,
            \<lparr>arg_body = body, arg_modelId = model_id self, arg_accept = accept self,
             arg_contentType = content_type self\<rparr>)]
      \<and> length (snd (snd (TitanEmbeddings_call ext text_arg dimensions normalize_arg
                            (self, issued_before)))) = Suc (length issued_before))
   \<and> (json_dumps ext (PDict [(''inputText'', text_arg), (''dimensions'', PInt dimensions),
                             (''normalize'', PBool normalize_arg)]) = Inl e \<longrightarrow>
      TitanEmbeddings_call ext text_arg dimensions normalize_arg (self, issued_before) =
        (Inl e, self, issued_before))"
  by (simp add: call_unfold reply_def call_requests_def call_payload_def request_args_def)

theorem C1_request_when_serialised_witness:
  \<open>snd (snd (TitanEmbeddings_call (scripted answers_embedding) (PStr ''a'') 256 True
               (scripted_helper, []))) =
     [(scripted_client,
       \<lparr>arg_body = ''{"inputText": "a", "dimensions": 256, "normalize": true}'',
        arg_modelId = ''amazon.titan-embed-text-v2:0'',
        arg_accept = ''application/json'',
        arg_contentType = ''application/json''\<rparr>)]
   \<and> TitanEmbeddings_call (scripted answers_embedding) (PStr ''a'') beyond_digit_limit True
       (scripted_helper, []) = (Inl ValueError, scripted_helper, [])\<close>
proof -
  have ok: \<open>json_dumps (scripted answers_embedding)
      (PDict [(''inputText'', PStr ''a''), (''dimensions'', PInt 256), (''normalize'', PBool True)]) =
      Inr ''{"inputText": "a", "dimensions": 256, "normalize": true}''\<close>
    using scripted_dumps_known(1) [of answers_embedding] by (simp add: call_payload_def)
  have raises: "json_dumps (scripted answers_embedding)
      (PDict [(''inputText'', PStr ''a''), (''dimensions'', PInt beyond_digit_limit),
              (''normalize'', PBool True)]) = Inl ValueError"
    using scripted_dumps_beyond [of answers_embedding] by (simp add: call_payload_def)
  from C1_request_when_serialised [where ext = "scripted answers_embedding"
      and text_arg = "PStr ''a''" and dimensions = 256 and normalize_arg = True
      and self = scripted_helper and issued_before = "[]"] ok
  have first: \<open>snd (snd (TitanEmbeddings_call (scripted answers_embedding) (PStr ''a'') 256 True
               (scripted_helper, []))) =
     [(bedrock_boto3 scripted_helper,
       \<lparr>arg_body = ''{"inputText": "a", "dimensions": 256, "normalize": true}'',
        arg_modelId = model_id scripted_helper, arg_accept = accept scripted_helper,
        arg_contentType = content_type scripted_helper\<rparr>)]\<close>
    by simp
  from C1_request_when_serialised [where ext = "scripted answers_embedding"
      and text_arg = "PStr ''a''" and dimensions = beyond_digit_limit and normalize_arg = True
      and self = scripted_helper and issued_before = "[]" and e = ValueError] raises
  have second: "TitanEmbeddings_call (scripted answers_embedding) (PStr ''a'') beyond_digit_limit
      True (scripted_helper, []) = (Inl ValueError, scripted_helper, [])"
    by blast
  from first second show ?thesis
    by (simp add: scripted_helper_def)
qed

text \<open>
  C2. \<^verbatim>\<open>TitanEmbeddings.__call__\<close> returns the \<^verbatim>\<open>'embedding'\<close> field of the parsed JSON
  response unchanged: when the request was serialised, the SDK returns a body and
  \<^verbatim>\<open>json.loads\<close> parses it, the result of the call is the outcome of
  \<^verbatim>\<open>response_body['embedding']\<close>; in particular, when that field is a list of length \<open>d\<close> for
  the requested dimension \<open>d\<close>, the list returned is that list and has length \<open>d\<close>.
\<close>

theorem C2_embedding_unchanged:
  assumes "json_dumps ext (call_payload text_arg d normalize_arg) = Inr body"
    and "client_invoke_model ext (bedrock_boto3 self) issued_before (request_args self body) =
           Inr (Some raw)"
    and "json_loads ext raw = Inr response_body"
  shows "fst (TitanEmbeddings_call ext text_arg d normalize_arg (self, issued_before)) =
           py_getitem response_body ''embedding''
         \<and> (\<forall>vs. py_getitem response_body ''embedding'' = Inr (PList vs) \<and> int (length vs) = d \<longrightarrow>
               (\<exists>ws. fst (TitanEmbeddings_call ext text_arg d normalize_arg (self, issued_before)) =
                        Inr (PList ws) \<and> ws = vs \<and> int (length ws) = d))"
  using assms by (simp add: call_unfold reply_def read_embedding_def)

theorem C2_embedding_unchanged_witness:
  "fst (TitanEmbeddings_call (scripted answers_embedding) (PStr ''a'') 2 True (scripted_helper, [])) =
     Inr (PList [PFloat 0x3FE0000000000000, PFloat 0xC000000000000000])
   \<and> int (length [PFloat 0x3FE0000000000000, PFloat 0xC000000000000000]) = 2"
proof -
  have sent: "client_invoke_model (scripted answers_embedding) (bedrock_boto3 scripted_helper) []
      (request_args scripted_helper b) = Inr (Some embedding_doc)" for b
    by (simp add: scripted_endpoint answers_embedding_def)
  from C2_embedding_unchanged [OF scripted_dumps_known(5) sent scripted_loads_known(1)]
  show ?thesis by (simp add: embedding_val_def)
qed

text \<open>
  C3 as stated fails: the output dimension placed in a request is not always one of 256, 512
  and 1024. \<^verbatim>\<open>__call__\<close> checks nothing; called with \<^verbatim>\<open>dimensions=7\<close> it serialises
  and sends a request whose \<^verbatim>\<open>dimensions\<close> field is 7.
\<close>

theorem C3_counterexample:
  \<open>snd (snd (TitanEmbeddings_call (scripted answers_embedding) (PStr ''a'') 7 True
               (scripted_helper, []))) =
     [(scripted_client,
       \<lparr>arg_body = ''{"inputText": "a", "dimensions": 7, "normalize": true}'',
        arg_modelId = ''amazon.titan-embed-text-v2:0'',
        arg_accept = ''application/json'',
        arg_contentType = ''application/json''\<rparr>)]
   \<and> json_dumps (scripted answers_embedding)
        (PDict [(''inputText'', PStr ''a''), (''dimensions'', PInt 7),
                (''normalize'', PBool True)]) =
       Inr ''{"inputText": "a", "dimensions": 7, "normalize": true}''
   \<and> (7::int) \<notin> titan_dimensions\<close>
  by (simp add: call_unfold call_requests_def scripted_defs titan_dimensions_def)

lemma init_dim: "TitanV2Model_init ext = Inr model \<Longrightarrow> dim model = 256"
  by (auto simp: TitanV2Model_init_def init_connection_def split: sum.splits)

lemma cell10_issued:
  "snd (cell10 ext nb) =
     nb\<lparr>issued := issued nb @
       (case json_dumps ext (call_payload (PStr prompt_data) 256 True) of
          Inl e \<Rightarrow> []
        | Inr body \<Rightarrow>
            [(boto3_bedrock_runtime nb,
              \<lparr>arg_body = body, arg_modelId = modelId, arg_accept = ''application/json'',
               arg_contentType = ''application/json''\<rparr>)])\<rparr>"
  by (simp add: cell10_def Let_def sample_model_input_def call_payload_def
      split: sum.splits option.splits)

lemma cell12_issued:
  "snd (cell12 ext nb) =
     nb\<lparr>issued := issued nb @
       call_requests ext (bedrock_embeddings nb) (PStr prompt_data) 256 True\<rparr>"
  by (simp add: cell12_def helper_call_unfold)

text \<open>
  C3, amended. \<^verbatim>\<open>TitanEmbeddings.__call__\<close> places in the request the \<^verbatim>\<open>dimensions\<close>
  argument it was given, unchecked. Every request issued by \<^verbatim>\<open>TitanV2Model.invoke_model\<close>
  carries the instance's \<^verbatim>\<open>dim\<close>, which is 256 for every instance built by
  \<^verbatim>\<open>TitanV2Model()\<close>; the notebook's two direct calls (cells 10 and 12) carry 256, an element
  of \<open>{256, 512, 1024}\<close>.
\<close>

theorem C3_dimension_as_given:
  "snd (snd (TitanEmbeddings_call ext text_arg d normalize_arg (self, issued_before))) =
     issued_before @ call_requests ext self text_arg d normalize_arg
   \<and> call_requests ext self text_arg d normalize_arg =
       (case json_dumps ext (call_payload text_arg d normalize_arg) of
          Inl e \<Rightarrow> []
        | Inr body \<Rightarrow> [(bedrock_boto3 self, request_args self body)])
   \<and> py_getitem (call_payload text_arg d normalize_arg) ''dimensions'' = Inr (PInt d)
   \<and> (\<exists>k\<le>length xs.
        issued (snd (invoke_model ext model xs nb)) =
          issued nb @ requests_for ext (bedrock_embeddings nb) (dim model)
                        (take k (map (reorg_value ext) xs)))
   \<and> requests_for ext (bedrock_embeddings nb) (dim model) ts =
       concat (map (\<lambda>t. call_requests ext (bedrock_embeddings nb) t (dim model) True) ts)
   \<and> (TitanV2Model_init ext = Inr model \<longrightarrow> dim model = 256)
   \<and> issued (snd (cell10 ext nb)) =
       issued nb @
         (case json_dumps ext (call_payload (PStr prompt_data) 256 True) of
            Inl e \<Rightarrow> []
          | Inr body \<Rightarrow>
              [(boto3_bedrock_runtime nb,
                \<lparr>arg_body = body, arg_modelId = modelId, arg_accept = ''application/json'',
                 arg_contentType = ''application/json''\<rparr>)])
   \<and> issued (snd (cell12 ext nb)) =
       issued nb @ call_requests ext (bedrock_embeddings nb) (PStr prompt_data) 256 True
   \<and> (256::int) \<in> titan_dimensions"
proof -
  from invoke_model_issued [of xs ext model nb] obtain k where "k \<le> length xs"
    and "snd (invoke_model ext model xs nb) =
       nb\<lparr>issued := issued nb @
         requests_for ext (bedrock_embeddings nb) (dim model) (take k (map (reorg_value ext) xs))\<rparr>"
    by blast
  then have loop: "\<exists>k\<le>length xs.
        issued (snd (invoke_model ext model xs nb)) =
          issued nb @ requests_for ext (bedrock_embeddings nb) (dim model)
                        (take k (map (reorg_value ext) xs))"
    by (intro exI [of _ k]) simp
  show ?thesis
    using loop
    by (simp add: call_unfold cell10_issued cell12_issued init_dim titan_dimensions_def)
      (simp add: call_requests_def call_payload_def requests_for_def)
qed

theorem C3_dimension_as_given_witness:
  "issued (snd (invoke_model (scripted answers_embedding) scripted_model [PStr ''a'']
                  scripted_notebook)) =
     requests_for (scripted answers_embedding) scripted_helper 256 [PStr ''a'']
   \<and> dim scripted_model = 256
   \<and> TitanV2Model_init (scripted answers_embedding) = Inr scripted_model"
proof -
  have init: "TitanV2Model_init (scripted answers_embedding) = Inr scripted_model"
    by (rule scripted_init)
  from C3_dimension_as_given [where ext = "scripted answers_embedding" and model = scripted_model
      and xs = "[PStr ''a'']" and nb = scripted_notebook]
  have d: "dim scripted_model = 256" using init by blast
  have run: "issued (snd (invoke_model (scripted answers_embedding) scripted_model [PStr ''a'']
                  scripted_notebook)) =
     requests_for (scripted answers_embedding) scripted_helper 256 [PStr ''a'']"
    by (simp add: invoke_model_def loop_Cons scripted_reorg_value scripted_notebook_simps
        reply_scripted_embedding [OF scripted_dumps_known(1)])
  from d run init show ?thesis by simp
qed














text \<open>
  C6. \<^verbatim>\<open>TitanEmbeddings.__call__\<close> modifies no attribute of its instance: after a call,
  \<^verbatim>\<open>model_id\<close>, \<^verbatim>\<open>bedrock_boto3\<close>, \<^verbatim>\<open>accept\<close> and \<^verbatim>\<open>content_type\<close> are what they
  were. So two successive calls with the same arguments build the same request, with the same
  body (and both build none when \<^verbatim>\<open>json.dumps\<close> raises).
\<close>

theorem C6_call_leaves_instance:
  "model_id (fst (snd (TitanEmbeddings_call ext text_arg d normalize_arg (self, issued_before)))) =
     model_id self
   \<and> bedrock_boto3 (fst (snd (TitanEmbeddings_call ext text_arg d normalize_arg
                                (self, issued_before)))) = bedrock_boto3 self
   \<and> accept (fst (snd (TitanEmbeddings_call ext text_arg d normalize_arg (self, issued_before)))) =
       accept self
   \<and> content_type (fst (snd (TitanEmbeddings_call ext text_arg d normalize_arg
                               (self, issued_before)))) = content_type self
   \<and> fst (snd (TitanEmbeddings_call ext text_arg d normalize_arg (self, issued_before))) = self
   \<and> snd (TitanEmbeddings_call ext text_arg d normalize_arg
        (snd (TitanEmbeddings_call ext text_arg d normalize_arg (self, issued_before)))) =
       (self,
        issued_before @ call_requests ext self text_arg d normalize_arg
                      @ call_requests ext self text_arg d normalize_arg)
   \<and> call_requests ext self text_arg d normalize_arg =
       (case json_dumps ext (call_payload text_arg d normalize_arg) of
          Inl e \<Rightarrow> []
        | Inr body \<Rightarrow> [(bedrock_boto3 self, request_args self body)])
   \<and> map (arg_body \<circ> snd)
        (drop (length issued_before)
           (snd (snd (TitanEmbeddings_call ext text_arg d normalize_arg
              (snd (TitanEmbeddings_call ext text_arg d normalize_arg (self, issued_before))))))) =
       (case json_dumps ext (call_payload text_arg d normalize_arg) of
          Inl e \<Rightarrow> []
        | Inr body \<Rightarrow> [body, body])"
  by (simp add: call_unfold call_requests_def request_args_def split: sum.splits)

theorem C6_call_leaves_instance_witness:
  \<open>fst (snd (TitanEmbeddings_call (scripted answers_embedding) (PStr ''a'') 256 True
               (scripted_helper, []))) = scripted_helper
   \<and> snd (snd (TitanEmbeddings_call (scripted answers_embedding) (PStr ''a'') 256 True
        (snd (TitanEmbeddings_call (scripted answers_embedding) (PStr ''a'') 256 True
               (scripted_helper, []))))) =
       [(scripted_client, request_args scripted_helper
           ''{"inputText": "a", "dimensions": 256, "normalize": true}''),
        (scripted_client, request_args scripted_helper
           ''{"inputText": "a", "dimensions": 256, "normalize": true}'')]\<close>
  using C6_call_leaves_instance [where ext = "scripted answers_embedding" and text_arg = "PStr ''a''"
      and d = 256 and normalize_arg = True and self = scripted_helper and issued_before = "[]"]
  by (simp add: scripted_notebook_simps scripted_dumps_known)

text \<open>
  C7 as stated fails: when the endpoint answers with the JSON object \<^verbatim>\<open>{}\<close>, the inline
  path of cell 10 reads \<^verbatim>\<open>None\<close> with \<^verbatim>\<open>response_body.get("embedding")\<close>, and the helper
  of cell 12 raises \<open>KeyError\<close> on \<^verbatim>\<open>response_body['embedding']\<close>.
\<close>

theorem C7_counterexample:
  \<open>fst (cell10 (scripted answers_empty_object) scripted_notebook) = Inr PNone
   \<and> fst (cell12 (scripted answers_empty_object) scripted_notebook) = Inl KeyError
   \<and> client_invoke_model (scripted answers_empty_object) scripted_client []
        (request_args scripted_helper
           (''{"inputText": "'' @ prompt_data @ ''", "dimensions": 256, "normalize": true}'')) =
       Inr (Some ''{}'')
   \<and> json_loads (scripted answers_empty_object) ''{}'' = Inr (PDict [])\<close>
proof -
  have same: "call_payload (PStr prompt_data) 256 True = sample_model_input"
    by (simp add: call_payload_def sample_model_input_def)
  show ?thesis
    by (simp add: cell10_def cell12_def helper_call_unfold reply_def read_embedding_def Let_def
        same scripted_dumps_prompt scripted_endpoint scripted_loads_known
        answers_empty_object_def scripted_notebook_simps)
qed

lemma cell10_result:
  "fst (cell10 ext nb) =
     (case json_dumps ext sample_model_input of
        Inl e \<Rightarrow> Inl e
      | Inr body \<Rightarrow>
          (case client_invoke_model ext (boto3_bedrock_runtime nb) (issued nb)
                  \<lparr>arg_body = body, arg_modelId = modelId,
                   arg_accept = ''application/json'', arg_contentType = ''application/json''\<rparr> of
             Inl e \<Rightarrow> Inl e
           | Inr None \<Rightarrow> Inl AttributeError
           | Inr (Some raw) \<Rightarrow>
               (case json_loads ext raw of
                  Inl e \<Rightarrow> Inl e
                | Inr response_body \<Rightarrow> py_get response_body ''embedding'')))"
  by (simp add: cell10_def Let_def split: sum.splits option.splits)

lemma cell12_result:
  "fst (cell12 ext nb) =
     (case json_dumps ext sample_model_input of
        Inl e \<Rightarrow> Inl e
      | Inr body \<Rightarrow>
          (case client_invoke_model ext (bedrock_boto3 (bedrock_embeddings nb)) (issued nb)
                  (request_args (bedrock_embeddings nb) body) of
             Inl e \<Rightarrow> Inl e
           | Inr None \<Rightarrow> Inl AttributeError
           | Inr (Some raw) \<Rightarrow>
               (case json_loads ext raw of
                  Inl e \<Rightarrow> Inl e
                | Inr response_body \<Rightarrow> py_getitem response_body ''embedding'')))"
  by (simp add: cell12_def helper_call_unfold reply_def read_embedding_def call_payload_def
      sample_model_input_def split: sum.splits option.splits)

lemma getitem_get: "py_getitem rb k = Inr v \<Longrightarrow> py_get rb k = Inr v"
  by (cases rb) (auto split: option.splits)

lemma cell8_helper_args:
  "request_args (TitanEmbeddings_init modelId (Some c) region) body =
     \<lparr>arg_body = body, arg_modelId = modelId,
      arg_accept = ''application/json'', arg_contentType = ''application/json''\<rparr>"
  by (simp add: request_args_def TitanEmbeddings_init_def)

text \<open>
  C7, amended. The inline path of cell 10 and the helper call of cell 12 serialise the same
  object and so build the same request body; with the helper that cell 8 built, they issue
  the same request, and given the same remote response the inline path reads the embedding
  the helper returns whenever the helper returns one, in particular whenever the parsed
  response is an object with an \<^verbatim>\<open>'embedding'\<close> field.
\<close>

theorem C7_inline_matches_helper:
  "call_payload (PStr prompt_data) 256 True = sample_model_input
   \<and> map (arg_body \<circ> snd) (call_requests ext g (PStr prompt_data) 256 True) =
       (case json_dumps ext sample_model_input of Inl e \<Rightarrow> [] | Inr body \<Rightarrow> [body])
   \<and> map (arg_body \<circ> snd) (drop (length (issued nb)) (issued (snd (cell10 ext nb)))) =
       (case json_dumps ext sample_model_input of Inl e \<Rightarrow> [] | Inr body \<Rightarrow> [body])
   \<and> (bedrock_embeddings nb =
          TitanEmbeddings_init modelId (Some (boto3_bedrock_runtime nb)) region \<longrightarrow>
        snd (cell10 ext nb) = snd (cell12 ext nb)
        \<and> (\<forall>v. fst (cell12 ext nb) = Inr v \<longrightarrow> fst (cell10 ext nb) = Inr v)
        \<and> (\<forall>body raw kvs v.
              json_dumps ext sample_model_input = Inr body
              \<and> client_invoke_model ext (boto3_bedrock_runtime nb) (issued nb)
                  (request_args (bedrock_embeddings nb) body) = Inr (Some raw)
              \<and> json_loads ext raw = Inr (PDict kvs) \<and> map_of kvs ''embedding'' = Some v \<longrightarrow>
              fst (cell10 ext nb) = Inr v \<and> fst (cell12 ext nb) = Inr v))"
proof (intro conjI impI allI)
  show same: "call_payload (PStr prompt_data) 256 True = sample_model_input"
    by (simp add: call_payload_def sample_model_input_def)
  show "map (arg_body \<circ> snd) (call_requests ext g (PStr prompt_data) 256 True) =
       (case json_dumps ext sample_model_input of Inl e \<Rightarrow> [] | Inr body \<Rightarrow> [body])"
    by (simp add: call_requests_def same request_args_def split: sum.splits)
  show "map (arg_body \<circ> snd) (drop (length (issued nb)) (issued (snd (cell10 ext nb)))) =
       (case json_dumps ext sample_model_input of Inl e \<Rightarrow> [] | Inr body \<Rightarrow> [body])"
    by (simp add: cell10_issued same split: sum.splits)
next
  assume g: "bedrock_embeddings nb =
          TitanEmbeddings_init modelId (Some (boto3_bedrock_runtime nb)) region"
  then have c: "bedrock_boto3 (bedrock_embeddings nb) = boto3_bedrock_runtime nb"
    by (simp add: TitanEmbeddings_init_def)
  have a: "request_args (bedrock_embeddings nb) body =
     \<lparr>arg_body = body, arg_modelId = modelId,
      arg_accept = ''application/json'', arg_contentType = ''application/json''\<rparr>" for body
    by (simp only: g cell8_helper_args)
  show "snd (cell10 ext nb) = snd (cell12 ext nb)"
    by (simp add: cell10_issued cell12_issued call_requests_def c a split: sum.splits)
next
  fix v
  assume g: "bedrock_embeddings nb =
          TitanEmbeddings_init modelId (Some (boto3_bedrock_runtime nb)) region"
    and r: "fst (cell12 ext nb) = Inr v"
  from g have c: "bedrock_boto3 (bedrock_embeddings nb) = boto3_bedrock_runtime nb"
    by (simp add: TitanEmbeddings_init_def)
  have a: "request_args (bedrock_embeddings nb) body =
     \<lparr>arg_body = body, arg_modelId = modelId,
      arg_accept = ''application/json'', arg_contentType = ''application/json''\<rparr>" for body
    by (simp only: g cell8_helper_args)
  from r show "fst (cell10 ext nb) = Inr v"
    unfolding cell10_result cell12_result c a
    by (auto split: sum.splits option.splits dest: getitem_get)
next
  fix body raw kvs v
  assume g: "bedrock_embeddings nb =
          TitanEmbeddings_init modelId (Some (boto3_bedrock_runtime nb)) region"
    and r: "json_dumps ext sample_model_input = Inr body
              \<and> client_invoke_model ext (boto3_bedrock_runtime nb) (issued nb)
                  (request_args (bedrock_embeddings nb) body) = Inr (Some raw)
              \<and> json_loads ext raw = Inr (PDict kvs) \<and> map_of kvs ''embedding'' = Some v"
  from g have c: "bedrock_boto3 (bedrock_embeddings nb) = boto3_bedrock_runtime nb"
    by (simp add: TitanEmbeddings_init_def)
  have a: "request_args (bedrock_embeddings nb) body =
     \<lparr>arg_body = body, arg_modelId = modelId,
      arg_accept = ''application/json'', arg_contentType = ''application/json''\<rparr>"
    by (simp only: g cell8_helper_args)
  from r show "fst (cell10 ext nb) = Inr v"
    unfolding cell10_result by (simp add: a [symmetric])
  from r show "fst (cell12 ext nb) = Inr v"
    unfolding cell12_result c by simp
qed

theorem C7_inline_matches_helper_witness:
  "snd (cell10 (scripted answers_embedding) scripted_notebook) =
     snd (cell12 (scripted answers_embedding) scripted_notebook)
   \<and> fst (cell10 (scripted answers_embedding) scripted_notebook) = Inr embedding_val
   \<and> fst (cell12 (scripted answers_embedding) scripted_notebook) = Inr embedding_val"
proof -
  let ?ext = "scripted answers_embedding"
  note inst = C7_inline_matches_helper [where ext = ?ext
      and nb = scripted_notebook and region = "''us-east-1''" and g = scripted_helper]
  from inst scripted_helper_init
  have same: "snd (cell10 ?ext scripted_notebook) = snd (cell12 ?ext scripted_notebook)"
    and both: "\<forall>body raw kvs v.
              json_dumps ?ext sample_model_input = Inr body
              \<and> client_invoke_model ?ext (boto3_bedrock_runtime scripted_notebook)
                  (issued scripted_notebook)
                  (request_args (bedrock_embeddings scripted_notebook) body) = Inr (Some raw)
              \<and> json_loads ?ext raw = Inr (PDict kvs)
              \<and> map_of kvs ''embedding'' = Some v \<longrightarrow>
              fst (cell10 ?ext scripted_notebook) = Inr v
              \<and> fst (cell12 ?ext scripted_notebook) = Inr v"
    by blast+
  have answered: "client_invoke_model ?ext c h a = Inr (Some embedding_doc)" for c h a
    by (simp add: scripted_endpoint answers_embedding_def)
  have "fst (cell10 ?ext scripted_notebook) = Inr embedding_val
        \<and> fst (cell12 ?ext scripted_notebook) = Inr embedding_val"
    by (rule both [rule_format, of _ embedding_doc "[(''embedding'', embedding_val)]" embedding_val])
      (simp add: scripted_dumps_prompt answered scripted_loads_known)
  with same show ?thesis by blast
qed

lemma reorg_text_falsy:
  assumes "json_loads ext ''0'' = Inr (PInt 0)" and "\<not> truthy single_text"
  shows "reorg_text ext single_text = Inr (PStr ''0'')"
  using assms by (cases single_text) (simp_all add: reorg_text_def)

text \<open>
  C8. For every falsy input (\<^verbatim>\<open>None\<close>, the empty string, an empty dict, an empty list, and
  also \<^verbatim>\<open>False\<close> and zero), \<^verbatim>\<open>TitanV2Model.reorg_text\<close> returns the string \<^verbatim>\<open>"0"\<close>, and
  the request \<^verbatim>\<open>invoke_model\<close> builds for such an input carries the text \<^verbatim>\<open>"0"\<close>: what is
  serialised has \<^verbatim>\<open>"0"\<close> as its \<^verbatim>\<open>inputText\<close>, and the one request issued has that
  serialisation as its body. The one fact used of the \<^verbatim>\<open>json\<close> module is that
  \<^verbatim>\<open>json.loads("0")\<close> is the integer 0.
\<close>

theorem C8_falsy_text:
  assumes "json_loads ext ''0'' = Inr (PInt 0)" and "\<not> truthy single_text"
  shows "reorg_text ext single_text = Inr (PStr ''0'')
     \<and> issued (snd (invoke_model ext model [single_text] nb)) =
         issued nb @
           (case json_dumps ext
                   (PDict [(''inputText'', PStr ''0''), (''dimensions'', PInt (dim model)),
                           (''normalize'', PBool True)]) of
              Inl e \<Rightarrow> []
            | Inr body \<Rightarrow>
                [(bedrock_boto3 (bedrock_embeddings nb),
                  \<lparr>arg_body = body,
                   arg_modelId = model_id (bedrock_embeddings nb),
                   arg_accept = accept (bedrock_embeddings nb),
                   arg_contentType = content_type (bedrock_embeddings nb)\<rparr>)])"
proof -
  have r: "reorg_text ext single_text = Inr (PStr ''0'')"
    using assms by (rule reorg_text_falsy)
  then have v: "reorg_value ext single_text = PStr ''0''"
    by (simp add: reorg_value_def)
  have "issued (snd (invoke_model ext model [single_text] nb)) =
         issued nb @ call_requests ext (bedrock_embeddings nb) (PStr ''0'') (dim model) True"
    by (simp add: invoke_model_def loop_Cons v requests_for_simps split: sum.splits)
  with r show ?thesis
    by (simp add: call_requests_def call_payload_def request_args_def split: sum.splits)
qed

theorem C8_falsy_text_witness:
  \<open>reorg_text (scripted answers_embedding) PNone = Inr (PStr ''0'')
   \<and> reorg_text (scripted answers_embedding) (PStr []) = Inr (PStr ''0'')
   \<and> reorg_text (scripted answers_embedding) (PDict []) = Inr (PStr ''0'')
   \<and> reorg_text (scripted answers_embedding) (PList []) = Inr (PStr ''0'')
   \<and> map (arg_body \<circ> snd)
        (issued (snd (invoke_model (scripted answers_embedding) scripted_model [PDict []]
                        scripted_notebook))) =
       [''{"inputText": "0", "dimensions": 256, "normalize": true}'']\<close>
proof -
  have l: "json_loads (scripted answers_embedding) ''0'' = Inr (PInt 0)"
    by (rule scripted_loads_known)
  note inst = C8_falsy_text [OF l, where model = scripted_model and nb = scripted_notebook]
  have d: \<open>json_dumps (scripted answers_embedding)
      (PDict [(''inputText'', PStr ''0''), (''dimensions'', PInt 256), (''normalize'', PBool True)]) =
      Inr ''{"inputText": "0", "dimensions": 256, "normalize": true}''\<close>
    using scripted_dumps_known(3) [of answers_embedding] by (simp add: call_payload_def)
  have "\<not> truthy PNone" "\<not> truthy (PStr [])" "\<not> truthy (PDict [])" "\<not> truthy (PList [])"
    by simp_all
  then show ?thesis
    using inst [of PNone] inst [of "PStr []"] inst [of "PDict []"] inst [of "PList []"]
    by (simp add: scripted_notebook_simps d)
qed




lemma invoke_model_dim:
  assumes "dim m1 = dim m2"
  shows "invoke_model ext m1 xs nb = invoke_model ext m2 xs nb"
proof -
  from assms have "m1 = m2\<lparr>br_embeddings := br_embeddings m1\<rparr>"
    by (cases m1, cases m2) simp
  then have "invoke_model ext m1 xs nb = invoke_model ext (m2\<lparr>br_embeddings := br_embeddings m1\<rparr>) xs nb"
    by simp
  then show ?thesis by (simp add: invoke_model_def loop_self)
qed

text \<open>
  C10. The outcome of \<^verbatim>\<open>TitanV2Model.invoke_model\<close>, and so of \<^verbatim>\<open>encode\<close>,
  \<^verbatim>\<open>encode_queries\<close> and \<^verbatim>\<open>encode_corpus\<close>, does not depend on \<^verbatim>\<open>self.br_embeddings\<close>:
  two instances with the same \<^verbatim>\<open>dim\<close>, run from the same notebook state (the same
  module-level helper, the same calls issued so far) against the same endpoint, issue the same
  requests and give the same result, on every input list.
\<close>

theorem C10_independent_of_br_embeddings:
  assumes "dim m1 = dim m2"
  shows "invoke_model ext m1 xs nb = invoke_model ext m2 xs nb
     \<and> encode ext m1 xs nb = encode ext m2 xs nb
     \<and> encode_queries ext m1 xs nb = encode_queries ext m2 xs nb
     \<and> encode_corpus ext m1 xs nb = encode_corpus ext m2 xs nb"
  using invoke_model_dim [OF assms, of ext xs nb]
  by (simp add: encode_def encode_queries_def encode_corpus_def)

theorem C10_independent_of_br_embeddings_witness:
  "br_embeddings scripted_model \<noteq>
     br_embeddings (scripted_model\<lparr>br_embeddings := scripted_helper\<lparr>model_id := ''other''\<rparr>\<rparr>)
   \<and> encode_queries (scripted answers_embedding) scripted_model [PStr ''a''] scripted_notebook =
       encode_queries (scripted answers_embedding)
         (scripted_model\<lparr>br_embeddings := scripted_helper\<lparr>model_id := ''other''\<rparr>\<rparr>)
         [PStr ''a''] scripted_notebook
   \<and> fst (encode_queries (scripted answers_embedding) scripted_model [PStr ''a''] scripted_notebook) =
       Inr (PList [embedding_val])"
proof -
  have d: "dim scripted_model =
      dim (scripted_model\<lparr>br_embeddings := scripted_helper\<lparr>model_id := ''other''\<rparr>\<rparr>)"
    by simp
  have np: "np_array (scripted answers_embedding) v = Inr v" for v
    by (simp add: scripted_def)
  have "fst (encode_queries (scripted answers_embedding) scripted_model [PStr ''a''] scripted_notebook) =
       Inr (PList [embedding_val])"
    by (simp add: encode_queries_def invoke_model_def loop_Cons scripted_reorg_value
        scripted_notebook_simps reply_scripted_embedding [OF scripted_dumps_known(1)]
        reshape_titan_embeddings_def np)
  moreover have "br_embeddings scripted_model \<noteq>
      br_embeddings (scripted_model\<lparr>br_embeddings := scripted_helper\<lparr>model_id := ''other''\<rparr>\<rparr>)"
    by (simp add: scripted_model_def scripted_helper_def)
  ultimately show ?thesis
    using C10_independent_of_br_embeddings [OF d, where ext = "scripted answers_embedding"
        and xs = "[PStr ''a'']" and nb = scripted_notebook]
    by simp
qed

end
